theory Spec2Isabelle
  imports Main
begin

section \<open>API documentation collector (r2/controllers/api\_docs.py)\<close>

text \<open>
  The module attaches documentation annotations to controller methods (\<open>api_doc\<close>),
  collects them per controller into an index \<open>section \<rightarrow> URI \<rightarrow> HTTP method \<rightarrow> record\<close>
  (\<open>docs_from_controller\<close>) and merges the indexes of several controllers
  (\<open>GET_docs\<close>).

  Python dictionaries are mutable objects that are shared by reference: the decorator
  stores the parent's \<open>_api_doc\<close> dictionary itself under \<open>extends\<close>, and the
  collector builds every record in a dictionary of its own.  The model therefore keeps
  the annotation dictionaries in an explicit store, addressed by natural numbers, and
  every statement of the source that writes to a dictionary is a write to the store.
\<close>

subsection \<open>Data model\<close>

type_synonym addr = nat
type_synonym fid = nat

text \<open>
  An annotation dictionary.  Its keys are the annotation fields listed in the docstring
  of \<open>docs_from_controller\<close> together with the keys the module itself sets
  (\<open>section\<close>, \<open>filepath\<close>, \<open>lineno\<close>, \<open>relfilepath\<close>).  A key that is absent
  from the dictionary is \<open>None\<close>.  The value of \<open>doc\<close> may itself be Python's
  \<open>None\<close> (\<open>inspect.getdoc\<close> of a function without docstring), hence the nested
  option.  The value stored under \<open>extends\<close> is a reference to another dictionary.
  The lists and the parameter dictionary are plain values: no statement of the module
  changes one of them in place (\<open>uri += ...\<close> rebinds a local string,
  \<open>del docs['extensions']\<close> removes a key, \<open>docs['parameters'] = {}\<close> binds a
  key).  The key \<open>section\<close> is written \<open>section_name\<close>.
\<close>

record pydict =
  section_name :: "string option"
  doc :: "string option option"
  uri :: "string option"
  uri_variants :: "string list option"
  extensions :: "string list option"
  parameters :: "(string \<times> string) list option"
  extends :: "addr option"
  filepath :: "string option"
  lineno :: "int option"
  relfilepath :: "string option"

definition empty_dict :: pydict where
  "empty_dict = \<lparr> section_name = None, doc = None, uri = None, uri_variants = None,
     extensions = None, parameters = None, extends = None, filepath = None,
     lineno = None, relfilepath = None \<rparr>"

text \<open>\<open>a.update(b)\<close>: every key of \<open>b\<close> overwrites the key of \<open>a\<close>.\<close>

definition override :: "'a option \<Rightarrow> 'a option \<Rightarrow> 'a option" where
  "override old new = (case new of None \<Rightarrow> old | Some v \<Rightarrow> Some v)"

definition dict_update :: "pydict \<Rightarrow> pydict \<Rightarrow> pydict" where
  "dict_update a b = \<lparr>
     section_name = override (section_name a) (section_name b),
     doc = override (doc a) (doc b),
     uri = override (uri a) (uri b),
     uri_variants = override (uri_variants a) (uri_variants b),
     extensions = override (extensions a) (extensions b),
     parameters = override (parameters a) (parameters b),
     extends = override (extends a) (extends b),
     filepath = override (filepath a) (filepath b),
     lineno = override (lineno a) (lineno b),
     relfilepath = override (relfilepath a) (relfilepath b) \<rparr>"

text \<open>
  The keyword arguments of \<open>api_doc(section, **kwargs)\<close>: the annotation fields.
  \<open>extends\<close> is given as a reference to another function object.
\<close>

record kwargs =
  kw_doc :: "string option option"
  kw_uri :: "string option"
  kw_uri_variants :: "string list option"
  kw_extensions :: "string list option"
  kw_parameters :: "(string \<times> string) list option"
  kw_extends :: "fid option"

text \<open>
  A function object (or any other member of a controller's \<open>__dict__\<close>):
  its \<open>_api_doc\<close> attribute, when it has one, the result of \<open>inspect.getdoc\<close>,
  and the file and line of its code object.
\<close>

record func =
  api_doc_attr :: "addr option"
  getdoc :: "string option"
  co_filename :: string
  co_firstlineno :: int

text \<open>
  The store: the dictionaries allocated so far (addresses below \<open>nxt\<close>) and the
  function objects.
\<close>

record state =
  dicts :: "addr \<Rightarrow> pydict"
  nxt :: addr
  funcs :: "fid \<Rightarrow> func"

datatype error = AttributeError | KeyError | ValueError

text \<open>\<open>{}\<close>: a new, empty dictionary.\<close>

definition new_dict :: "state \<Rightarrow> addr \<times> state" where
  "new_dict s = (nxt s, s\<lparr> dicts := (dicts s)(nxt s := empty_dict), nxt := Suc (nxt s) \<rparr>)"

text \<open>A write to the dictionary at address \<open>d\<close>.\<close>

definition set_dict :: "addr \<Rightarrow> (pydict \<Rightarrow> pydict) \<Rightarrow> state \<Rightarrow> state" where
  "set_dict d f s = s\<lparr> dicts := (dicts s)(d := f (dicts s d)) \<rparr>"

subsection \<open>The section registry\<close>

definition section_info :: "(string \<times> string) list" where
  "section_info = [
     (''account'', ''account''),
     (''flair'', ''flair''),
     (''links_and_comments'', ''links & comments''),
     (''messages'', ''private messages''),
     (''moderation'', ''moderation''),
     (''misc'', ''misc''),
     (''listings'', ''listings''),
     (''search'', ''search''),
     (''subreddits'', ''subreddits''),
     (''users'', ''users'')]"

definition api_section :: "string \<rightharpoonup> string" where
  "api_section = map_of (map (\<lambda>(k, t). (k, k)) section_info)"

subsection \<open>Annotation attachment: \<open>api_doc\<close>\<close>

text \<open>
  The dictionary \<open>kwargs\<close> after \<open>kwargs['extends'] = kwargs['extends']._api_doc\<close>,
  \<open>ext\<close> being the dictionary the attribute refers to.
\<close>

definition kwargs_dict :: "kwargs \<Rightarrow> addr option \<Rightarrow> pydict" where
  "kwargs_dict kw ext = empty_dict \<lparr> doc := kw_doc kw, uri := kw_uri kw,
     uri_variants := kw_uri_variants kw, extensions := kw_extensions kw,
     parameters := kw_parameters kw, extends := ext \<rparr>"

text \<open>
  \<open>api_doc(section, **kwargs)(api_function)\<close>, one application of the decorator.
  The first statement binds \<open>doc\<close> to the function's dictionary, a new one when the
  function has none, and stores it in the attribute before anything else happens.
  Reading \<open>_api_doc\<close> of the object given as \<open>extends\<close> raises AttributeError when
  that object has no such attribute; the statements before it have taken effect then.
\<close>

definition api_doc :: "string \<Rightarrow> kwargs \<Rightarrow> fid \<Rightarrow> state \<Rightarrow> error option \<times> state" where
  "api_doc section kw api_function s =
     (let (d, s1) = (case api_doc_attr (funcs s api_function) of
                       Some a \<Rightarrow> (a, s)
                     | None \<Rightarrow> new_dict s);
          s2 = s1\<lparr> funcs := (funcs s1)(api_function :=
                  (funcs s1 api_function)\<lparr> api_doc_attr := Some d \<rparr>) \<rparr>;
          fin = (\<lambda>ext.
            (None, set_dict d (\<lambda>r. r\<lparr> section_name := Some section,
                       filepath := Some (co_filename (funcs s2 api_function)),
                       lineno := Some (co_firstlineno (funcs s2 api_function)) \<rparr>)
                     (set_dict d (\<lambda>r. dict_update r (kwargs_dict kw ext)) s2)))
      in case kw_extends kw of
           None \<Rightarrow> fin None
         | Some g \<Rightarrow>
             (case api_doc_attr (funcs s2 g) of
                None \<Rightarrow> (Some AttributeError, s2)
              | Some a \<Rightarrow> fin (Some a)))"

subsection \<open>The collector: \<open>docs_from_controller\<close>\<close>

text \<open>
  The index \<open>api_docs[section][uri][method]\<close>; its entries refer to the record
  dictionaries in the store.
\<close>

type_synonym method_table = "string \<rightharpoonup> addr"
type_synonym uri_table = "string \<rightharpoonup> method_table"
type_synonym index = "string \<rightharpoonup> uri_table"

text \<open>
  \<open>config['pylons.paths']['root']\<close> and \<open>os.path.relpath\<close> on a non-empty path are
  taken as parameters.
\<close>

record config =
  root_dir :: string
  relpath :: "string \<Rightarrow> string \<Rightarrow> string"

text \<open>\<open>name.partition(c)\<close>: the parts before and after the first \<open>c\<close>.\<close>

definition partition_str :: "string \<Rightarrow> char \<Rightarrow> string \<times> string \<times> string" where
  "partition_str name c =
     (takeWhile (\<lambda>x. x \<noteq> c) name,
      (if c \<in> set name then [c] else []),
      drop 1 (dropWhile (\<lambda>x. x \<noteq> c) name))"

definition startswith :: "string \<Rightarrow> string \<Rightarrow> bool" where
  "startswith str pre = (take (length pre) str = pre)"

text \<open>\<open>'/'.join((url_prefix, action))\<close>\<close>

definition join_uri :: "string \<Rightarrow> string \<Rightarrow> string" where
  "join_uri url_prefix action = url_prefix @ ''/'' @ action"

text \<open>
  \<open>api_docs[section][variant][method] = docs\<close> on the nested default dictionaries:
  a missing section or URI is created empty first.
\<close>

definition index_insert :: "index \<Rightarrow> string \<Rightarrow> string \<Rightarrow> string \<Rightarrow> addr \<Rightarrow> index" where
  "index_insert api_docs sec variant method docs =
     (let ut = (case api_docs sec of None \<Rightarrow> Map.empty | Some u \<Rightarrow> u);
          mt = (case ut variant of None \<Rightarrow> Map.empty | Some m \<Rightarrow> m)
      in api_docs(sec \<mapsto> ut(variant \<mapsto> mt(method \<mapsto> docs))))"

text \<open>
  The condition under which an endpoint is documented:
  \<open>action\<close> non-empty, and
  \<open>api_doc and 'section' in api_doc and method in ('GET', 'POST')\<close>.
\<close>

definition documented :: "state \<Rightarrow> string \<Rightarrow> fid \<Rightarrow> bool" where
  "documented s name f =
     (case partition_str name CHR ''_'' of (method, sep, action) \<Rightarrow>
        action \<noteq> [] \<and>
        (case api_doc_attr (funcs s f) of
           None \<Rightarrow> False
         | Some a \<Rightarrow> dicts s a \<noteq> empty_dict \<and> section_name (dicts s a) \<noteq> None \<and>
                     (method = ''GET'' \<or> method = ''POST'')))"

text \<open>
  Lines 94 to 101, \<open>own\<close> being the endpoint's dictionary (the local variable
  \<open>api_doc\<close> of the source): the new dictionary \<open>docs\<close> with \<open>doc\<close>, the fields of the
  dictionary under \<open>extends\<close>, \<open>parameters\<close> reset, and the endpoint's own fields
  on top.
\<close>

definition inherit_fields :: "fid \<Rightarrow> addr \<Rightarrow> state \<Rightarrow> addr \<times> state" where
  "inherit_fields f own s =
     (let (docs, s1) = new_dict s;
          s2 = set_dict docs (\<lambda>d. d\<lparr> doc := Some (getdoc (funcs s1 f)) \<rparr>) s1;
          s3 = (case extends (dicts s2 own) of
                  None \<Rightarrow> s2
                | Some ext \<Rightarrow>
                    set_dict docs (\<lambda>d. d\<lparr> parameters := Some [] \<rparr>)
                      (set_dict docs (\<lambda>d. dict_update d (dicts s2 ext)) s2));
          s4 = set_dict docs (\<lambda>d. dict_update d (dicts s3 own)) s3
      in (docs, s4))"

text \<open>Line 103: \<open>docs.get('uri') or '/'.join((url_prefix, action))\<close>.\<close>

definition canonical_uri :: "pydict \<Rightarrow> string \<Rightarrow> string \<Rightarrow> string" where
  "canonical_uri d url_prefix action =
     (case uri d of
        None \<Rightarrow> join_uri url_prefix action
      | Some u \<Rightarrow> if u \<noteq> [] then u else join_uri url_prefix action)"

text \<open>Lines 104 to 109: a single extension is added to the URI and deleted.\<close>

definition fold_extension :: "addr \<Rightarrow> string \<Rightarrow> state \<Rightarrow> string \<times> state" where
  "fold_extension docs uri0 s =
     (let (uri1, s1) =
            (case extensions (dicts s docs) of
               None \<Rightarrow> (uri0, s)
             | Some exts \<Rightarrow>
                 if length exts = 1
                 then (uri0 @ ''.'' @ exts ! 0,
                       set_dict docs (\<lambda>d. d\<lparr> extensions := None \<rparr>) s)
                 else (uri0, s))
      in (uri1, set_dict docs (\<lambda>d. d\<lparr> uri := Some uri1 \<rparr>) s1))"

text \<open>
  Lines 113 and 114.  \<open>docs['filepath']\<close> raises KeyError when the key is missing,
  and \<open>relpath\<close> raises ValueError on the empty path.
\<close>

definition relative_path :: "config \<Rightarrow> addr \<Rightarrow> state \<Rightarrow> error option \<times> state" where
  "relative_path cfg docs s =
     (case filepath (dicts s docs) of
        None \<Rightarrow> (Some KeyError, s)
      | Some fp \<Rightarrow>
          if startswith fp (root_dir cfg)
          then (if fp = [] then (Some ValueError, s)
                else (None, set_dict docs
                        (\<lambda>d. d\<lparr> relfilepath := Some (relpath cfg fp (root_dir cfg)) \<rparr>) s))
          else (None, s))"

text \<open>
  Lines 118 and 119: the loop over \<open>chain([uri], docs.get('uri_variants', []))\<close>.
\<close>

fun insert_variants :: "index \<Rightarrow> string \<Rightarrow> string \<Rightarrow> addr \<Rightarrow> string list \<Rightarrow> index" where
  "insert_variants api_docs sec method docs [] = api_docs"
| "insert_variants api_docs sec method docs (variant # rest) =
     insert_variants (index_insert api_docs sec variant method docs) sec method docs rest"

definition variants_of :: "pydict \<Rightarrow> string list" where
  "variants_of d = (case uri_variants d of None \<Rightarrow> [] | Some vs \<Rightarrow> vs)"

text \<open>The body of the loop over the controller's members, lines 88 to 119.\<close>

definition collect_endpoint ::
  "config \<Rightarrow> string \<Rightarrow> string \<times> fid \<Rightarrow> index \<Rightarrow> state \<Rightarrow> (error + index) \<times> state" where
  "collect_endpoint cfg url_prefix member api_docs s =
     (let (name, f) = member;
          (method, sep, action) = partition_str name CHR ''_''
      in if \<not> documented s name f then (Inr api_docs, s)
         else
           (case api_doc_attr (funcs s f) of
              None \<Rightarrow> (Inr api_docs, s)
            | Some own \<Rightarrow>
               (let (docs, s1) = inherit_fields f own s;
                    (uri1, s2) = fold_extension docs
                                   (canonical_uri (dicts s1 docs) url_prefix action) s1;
                    (err, s3) = relative_path cfg docs s2
                in (case err of
                      Some e \<Rightarrow> (Inl e, s3)
                    | None \<Rightarrow>
                       (case section_name (dicts s3 docs) of
                          None \<Rightarrow> (Inl KeyError, s3)
                        | Some sec \<Rightarrow>
                            (Inr (insert_variants api_docs sec method docs
                                    (uri1 # variants_of (dicts s3 docs))), s3))))))"

text \<open>
  The loop of \<open>docs_from_controller\<close>; the controller is the list of the items of its
  \<open>__dict__\<close>, in the order the iteration yields them.  An exception ends the loop.
\<close>

fun collect_loop ::
  "config \<Rightarrow> string \<Rightarrow> (string \<times> fid) list \<Rightarrow> index \<Rightarrow> state \<Rightarrow> (error + index) \<times> state" where
  "collect_loop cfg url_prefix [] api_docs s = (Inr api_docs, s)"
| "collect_loop cfg url_prefix (member # rest) api_docs s =
     (case collect_endpoint cfg url_prefix member api_docs s of
        (Inl e, s') \<Rightarrow> (Inl e, s')
      | (Inr api_docs', s') \<Rightarrow> collect_loop cfg url_prefix rest api_docs' s')"

definition docs_from_controller ::
  "config \<Rightarrow> (string \<times> fid) list \<Rightarrow> string \<Rightarrow> state \<Rightarrow> (error + index) \<times> state" where
  "docs_from_controller cfg controller url_prefix s =
     collect_loop cfg url_prefix controller Map.empty s"

subsection \<open>The aggregator: the merge loop of \<open>GET_docs\<close>\<close>

text \<open>
  \<open>for section, contents in partial.iteritems(): api_docs[section].update(contents)\<close>.
  Every section of the partial index is updated on its own, so the loop is written
  section by section: the URI table of the section is created empty when it is missing
  and is then updated with the URI table of the partial index.
\<close>

definition merge_index :: "index \<Rightarrow> index \<Rightarrow> index" where
  "merge_index api_docs part =
     (\<lambda>sec. case part sec of
              None \<Rightarrow> api_docs sec
            | Some contents \<Rightarrow>
                Some ((case api_docs sec of None \<Rightarrow> Map.empty | Some u \<Rightarrow> u) ++ contents))"

text \<open>
  The loop over \<open>api_controllers\<close>, the list of controllers with their URL prefixes
  (the controller classes themselves are imported from other modules).
\<close>

fun merge_loop ::
  "config \<Rightarrow> ((string \<times> fid) list \<times> string) list \<Rightarrow> index \<Rightarrow> state \<Rightarrow> (error + index) \<times> state" where
  "merge_loop cfg [] api_docs s = (Inr api_docs, s)"
| "merge_loop cfg ((controller, url_prefix) # rest) api_docs s =
     (case docs_from_controller cfg controller url_prefix s of
        (Inl e, s') \<Rightarrow> (Inl e, s')
      | (Inr part, s') \<Rightarrow> merge_loop cfg rest (merge_index api_docs part) s')"

definition GET_docs ::
  "config \<Rightarrow> ((string \<times> fid) list \<times> string) list \<Rightarrow> state \<Rightarrow> (error + index) \<times> state" where
  "GET_docs cfg api_controllers s = merge_loop cfg api_controllers Map.empty s"

text \<open>Reading the index.\<close>

definition lookup_uri :: "index \<Rightarrow> string \<Rightarrow> string \<Rightarrow> method_table option" where
  "lookup_uri api_docs sec u = (case api_docs sec of None \<Rightarrow> None | Some ut \<Rightarrow> ut u)"

definition lookup :: "index \<Rightarrow> string \<Rightarrow> string \<Rightarrow> string \<Rightarrow> addr option" where
  "lookup api_docs sec u method =
     (case lookup_uri api_docs sec u of None \<Rightarrow> None | Some mt \<Rightarrow> mt method)"


subsection \<open>Auxiliary notions\<close>

text \<open>
  \<open>preserves s s'\<close>: from \<open>s\<close> to \<open>s'\<close> no function object and no dictionary that
  was allocated in \<open>s\<close> has changed; dictionaries may have been added.
\<close>

definition preserves :: "state \<Rightarrow> state \<Rightarrow> bool" where
  "preserves s s' =
     (funcs s' = funcs s \<and> nxt s \<le> nxt s' \<and> (\<forall>a. a < nxt s \<longrightarrow> dicts s' a = dicts s a))"

text \<open>
  Lines 104 to 109 read as functions of the record \<open>r\<close> built so far and of the
  canonical URI \<open>c\<close>: the URI after folding, and the record after folding.
\<close>

definition folded_uri :: "pydict \<Rightarrow> string \<Rightarrow> string" where
  "folded_uri r c =
     (case extensions r of
        None \<Rightarrow> c
      | Some exts \<Rightarrow> if length exts = 1 then c @ ''.'' @ exts ! 0 else c)"

definition folded_dict :: "pydict \<Rightarrow> string \<Rightarrow> pydict" where
  "folded_dict r c =
     (case extensions r of
        None \<Rightarrow> r\<lparr> uri := Some c \<rparr>
      | Some exts \<Rightarrow>
          if length exts = 1
          then r\<lparr> extensions := None, uri := Some (c @ ''.'' @ exts ! 0) \<rparr>
          else r\<lparr> uri := Some c \<rparr>)"

subsection \<open>Example inputs\<close>

text \<open>
  A store without dictionaries whose function objects carry no annotation yet, a
  configuration, and keyword arguments.  The examples below are built from them by
  applying the decorator.
\<close>

definition init_state :: state where
  "init_state = \<lparr> dicts = (\<lambda>_. empty_dict), nxt = 0,
     funcs = (\<lambda>_. \<lparr> api_doc_attr = None, getdoc = Some ''Docstring.'',
                     co_filename = ''/srv/r2/controllers/api.py'', co_firstlineno = 100 \<rparr>) \<rparr>"

definition example_config :: config where
  "example_config = \<lparr> root_dir = ''/srv'', relpath = (\<lambda>path start. drop (Suc (length start)) path) \<rparr>"

definition no_kwargs :: kwargs where
  "no_kwargs = \<lparr> kw_doc = None, kw_uri = None, kw_uri_variants = None,
     kw_extensions = None, kw_parameters = None, kw_extends = None \<rparr>"

definition kw_parent :: kwargs where
  "kw_parent = no_kwargs \<lparr> kw_uri := Some ''/api/parent'',
     kw_uri_variants := Some [''/api/alias''], kw_extensions := Some [''json''],
     kw_parameters := Some [(''id'', ''thing id'')] \<rparr>"

definition kw_child :: kwargs where
  "kw_child = no_kwargs \<lparr> kw_uri := Some ''/api/child'', kw_extends := Some 0 \<rparr>"

text \<open>
  Function 0 annotated in section \<open>account\<close>, then function 1 annotated in section
  \<open>misc\<close> with \<open>extends\<close> function 0.
\<close>

definition parent_state :: state where
  "parent_state = snd (api_doc ''account'' kw_parent 0 init_state)"

definition family_state :: state where
  "family_state = snd (api_doc ''misc'' kw_child 1 parent_state)"

text \<open>
  A store in which function 0 carries a dictionary that has a URI but no section
  (the decorator always sets one; such a dictionary is attached by other means).
\<close>

definition unsectioned_state :: state where
  "unsectioned_state = init_state \<lparr>
     dicts := (dicts init_state)(0 := empty_dict \<lparr> uri := Some ''/api/orphan'' \<rparr>),
     nxt := 1,
     funcs := (funcs init_state)(0 := (funcs init_state 0) \<lparr> api_doc_attr := Some 0 \<rparr>) \<rparr>"

text \<open>
  A controller with the two annotated functions and the store after its collection.
\<close>

definition family_controller :: "(string \<times> fid) list" where
  "family_controller = [(''POST_child'', 1), (''GET_parent'', 0)]"

definition collected_state :: state where
  "collected_state = snd (docs_from_controller example_config family_controller ''/api'' family_state)"

definition collected_index :: index where
  "collected_index = projr (fst (docs_from_controller example_config family_controller ''/api'' family_state))"

text \<open>The index and the store after collecting the child endpoint alone.\<close>

definition child_index :: index where
  "child_index = projr (fst (collect_endpoint example_config ''/api'' (''POST_child'', 1)
     Map.empty family_state))"

definition child_state :: state where
  "child_state = snd (collect_endpoint example_config ''/api'' (''POST_child'', 1)
     Map.empty family_state)"

text \<open>
  A listing endpoint with two extensions and no URI of its own, collected with the
  empty URL prefix.
\<close>

definition kw_listing :: kwargs where
  "kw_listing = no_kwargs \<lparr> kw_extensions := Some [''json'', ''xml''] \<rparr>"

definition listing_state :: state where
  "listing_state = snd (api_doc ''listings'' kw_listing 0 init_state)"

definition listing_index :: index where
  "listing_index = projr (fst (collect_endpoint example_config [] (''GET_hot'', 0)
     Map.empty listing_state))"

definition listing_collected :: state where
  "listing_collected = snd (collect_endpoint example_config [] (''GET_hot'', 0)
     Map.empty listing_state)"

text \<open>An endpoint annotated with the empty string as its URI.\<close>

definition kw_empty_uri :: kwargs where
  "kw_empty_uri = no_kwargs \<lparr> kw_uri := Some [] \<rparr>"

definition empty_uri_state :: state where
  "empty_uri_state = snd (api_doc ''account'' kw_empty_uri 0 init_state)"

definition empty_uri_index :: index where
  "empty_uri_index = projr (fst (collect_endpoint example_config ''/api'' (''GET_me'', 0)
     Map.empty empty_uri_state))"

definition empty_uri_collected :: state where
  "empty_uri_collected = snd (collect_endpoint example_config ''/api'' (''GET_me'', 0)
     Map.empty empty_uri_state)"












text \<open>
  The parent of the example annotated once more, after the child was annotated with
  \<open>extends\<close>, and the child collected afterwards.
\<close>

definition kw_moved :: kwargs where
  "kw_moved = no_kwargs \<lparr> kw_uri_variants := Some [''/api/moved''] \<rparr>"

definition reattached_state :: state where
  "reattached_state = snd (api_doc ''account'' kw_moved 0 family_state)"

definition reattached_collected :: state where
  "reattached_collected = snd (collect_endpoint example_config ''/api'' (''POST_child'', 1)
     Map.empty reattached_state)"

text \<open>
  Keyword arguments whose \<open>extends\<close> is function 5, which carries no annotation; and
  function 1 annotated with \<open>extends\<close> function 0 in the store where the dictionary of
  function 0 has no section.
\<close>

definition kw_dangling :: kwargs where
  "kw_dangling = no_kwargs \<lparr> kw_extends := Some 5 \<rparr>"

definition kw_orphan_child :: kwargs where
  "kw_orphan_child = no_kwargs \<lparr> kw_extends := Some 0 \<rparr>"

definition orphan_state :: state where
  "orphan_state = snd (api_doc ''misc'' kw_orphan_child 1 unsectioned_state)"

definition orphan_index :: index where
  "orphan_index = projr (fst (collect_endpoint example_config ''/api'' (''GET_kid'', 1)
     Map.empty orphan_state))"

definition orphan_collected :: state where
  "orphan_collected = snd (collect_endpoint example_config ''/api'' (''GET_kid'', 1)
     Map.empty orphan_state)"

lemmas model_defs =
  api_doc_def kwargs_dict_def new_dict_def set_dict_def dict_update_def override_def
  empty_dict_def documented_def partition_str_def startswith_def join_uri_def
  canonical_uri_def variants_of_def index_insert_def lookup_def lookup_uri_def
  inherit_fields_def fold_extension_def relative_path_def collect_endpoint_def
  docs_from_controller_def merge_index_def GET_docs_def Let_def

section \<open>Properties\<close>

subsection \<open>What the collector writes\<close>

lemma preserves_refl: "preserves s s"
  by (simp add: preserves_def)

lemma preserves_trans: "preserves s s1 \<Longrightarrow> preserves s1 s2 \<Longrightarrow> preserves s s2"
  by (auto simp: preserves_def)

lemma inherit_fields_eq:
  "inherit_fields f own s =
     (nxt s, s\<lparr> dicts := (dicts s)(nxt s :=
         (let d0 = empty_dict\<lparr> doc := Some (getdoc (funcs s f)) \<rparr>;
              h = (dicts s)(nxt s := d0);
              d1 = (case extends (h own) of None \<Rightarrow> d0
                    | Some ext \<Rightarrow> (dict_update d0 (h ext))\<lparr> parameters := Some [] \<rparr>)
          in dict_update d1 (if own = nxt s then d1 else dicts s own))),
        nxt := Suc (nxt s) \<rparr>)"
  by (simp add: inherit_fields_def new_dict_def set_dict_def Let_def split: option.splits)

lemma inherit_fields_preserves:
  "inherit_fields f own s = (docs, s1) \<Longrightarrow> docs = nxt s \<and> nxt s1 = Suc (nxt s) \<and> preserves s s1"
  by (auto simp: inherit_fields_eq preserves_def)

lemma fold_extension_frame:
  "fold_extension docs u0 s = (u, s') \<Longrightarrow>
     funcs s' = funcs s \<and> nxt s' = nxt s \<and> (\<forall>a. a \<noteq> docs \<longrightarrow> dicts s' a = dicts s a)"
  by (auto simp: fold_extension_def set_dict_def Let_def split: option.splits if_splits)

lemma relative_path_frame:
  "relative_path cfg docs s = (e, s') \<Longrightarrow>
     funcs s' = funcs s \<and> nxt s' = nxt s \<and> (\<forall>a. a \<noteq> docs \<longrightarrow> dicts s' a = dicts s a)"
  by (auto simp: relative_path_def set_dict_def split: option.splits if_splits)

lemma collect_endpoint_preserves:
  assumes "collect_endpoint cfg p member idx s = (r, s')"
  shows "preserves s s'"
proof (cases "documented s (fst member) (snd member)")
  case False
  with assms show ?thesis
    by (simp add: collect_endpoint_def split_def preserves_refl)
next
  case True
  obtain own where own: "api_doc_attr (funcs s (snd member)) = Some own"
    using True by (auto simp: documented_def split_def split: option.splits)
  obtain docs s1 where inh: "inherit_fields (snd member) own s = (docs, s1)"
    by (cases "inherit_fields (snd member) own s")
  obtain u s2 where fe: "fold_extension docs
      (canonical_uri (dicts s1 docs) p (snd (snd (partition_str (fst member) CHR ''_'')))) s1 = (u, s2)"
    by (cases "fold_extension docs
      (canonical_uri (dicts s1 docs) p (snd (snd (partition_str (fst member) CHR ''_'')))) s1")
  obtain e s3 where rp: "relative_path cfg docs s2 = (e, s3)"
    by (cases "relative_path cfg docs s2")
  have s': "s' = s3"
    using assms True own inh fe rp
    by (auto simp: collect_endpoint_def split_def Let_def split: option.splits)
  from inherit_fields_preserves [OF inh]
  have 1: "docs = nxt s" "nxt s1 = Suc (nxt s)" "preserves s s1" by simp_all
  from fold_extension_frame [OF fe] relative_path_frame [OF rp] 1
  show ?thesis unfolding s' preserves_def by auto
qed

lemma collect_loop_preserves:
  "collect_loop cfg p ms idx s = (r, s') \<Longrightarrow> preserves s s'"
proof (induction ms arbitrary: idx s)
  case Nil
  then show ?case by (simp add: preserves_refl)
next
  case (Cons m ms)
  obtain r1 s1 where step: "collect_endpoint cfg p m idx s = (r1, s1)"
    by (cases "collect_endpoint cfg p m idx s")
  have p1: "preserves s s1" by (rule collect_endpoint_preserves [OF step])
  show ?case
  proof (cases r1)
    case (Inl e)
    with Cons.prems step have "s' = s1" by simp
    with p1 show ?thesis by simp
  next
    case (Inr idx1)
    with Cons.prems step have "collect_loop cfg p ms idx1 s1 = (r, s')" by simp
    from Cons.IH [OF this] p1 show ?thesis by (rule preserves_trans [rotated])
  qed
qed

subsection \<open>The result of collecting one endpoint\<close>

lemma fold_extension_eq:
  "fold_extension docs u0 s =
     (case extensions (dicts s docs) of
        None \<Rightarrow> (u0, s\<lparr> dicts := (dicts s)(docs := (dicts s docs)\<lparr> uri := Some u0 \<rparr>) \<rparr>)
      | Some exts \<Rightarrow>
          if length exts = 1
          then (u0 @ ''.'' @ exts ! 0,
                s\<lparr> dicts := (dicts s)(docs := (dicts s docs)
                    \<lparr> extensions := None, uri := Some (u0 @ ''.'' @ exts ! 0) \<rparr>) \<rparr>)
          else (u0, s\<lparr> dicts := (dicts s)(docs := (dicts s docs)\<lparr> uri := Some u0 \<rparr>) \<rparr>))"
  by (simp add: fold_extension_def set_dict_def Let_def split: option.splits)

lemma fold_extension_folded:
  "fold_extension docs c s =
     (folded_uri (dicts s docs) c, s\<lparr> dicts := (dicts s)(docs := folded_dict (dicts s docs) c) \<rparr>)"
  by (simp add: fold_extension_eq folded_uri_def folded_dict_def split: option.splits)

lemma folded_dict_fields:
  "section_name (folded_dict r c) = section_name r"
  "filepath (folded_dict r c) = filepath r"
  "uri_variants (folded_dict r c) = uri_variants r"
  "relfilepath (folded_dict r c) = relfilepath r"
  "uri (folded_dict r c) = Some (folded_uri r c)"
  by (simp_all add: folded_dict_def folded_uri_def split: option.splits)

lemma lookup_index_insert:
  "lookup (index_insert api_docs sec v method d) sec' v' method' =
     (if sec' = sec \<and> v' = v \<and> method' = method then Some d
      else lookup api_docs sec' v' method')"
  by (auto simp: index_insert_def lookup_def lookup_uri_def Let_def split: option.splits)

lemma lookup_insert_variants:
  "lookup (insert_variants api_docs sec method d vs) sec' v' method' =
     (if sec' = sec \<and> v' \<in> set vs \<and> method' = method then Some d
      else lookup api_docs sec' v' method')"
  by (induction vs arbitrary: api_docs) (auto simp: lookup_index_insert)



lemma collect_endpoint_collected:
  assumes dc: "documented s name f"
    and own: "api_doc_attr (funcs s f) = Some own"
    and part: "partition_str name CHR ''_'' = (method, sep, action)"
    and inh: "inherit_fields f own s = (docs, s1)"
    and ok: "collect_endpoint cfg url_prefix (name, f) api_docs s = (Inr api_docs', s')"
    and r: "r = dicts s1 docs"
    and c: "c = canonical_uri r url_prefix action"
  shows "\<exists>sec fp. section_name r = Some sec \<and> filepath r = Some fp \<and>
          api_docs' = insert_variants api_docs sec method docs (folded_uri r c # variants_of r) \<and>
          dicts s' docs =
            (if startswith fp (root_dir cfg)
             then (folded_dict r c)\<lparr> relfilepath := Some (relpath cfg fp (root_dir cfg)) \<rparr>
             else folded_dict r c)"
proof -
  define s2 where "s2 = s1\<lparr> dicts := (dicts s1)(docs := folded_dict r c) \<rparr>"
  have fe: "fold_extension docs c s1 = (folded_uri r c, s2)"
    by (simp add: fold_extension_folded r s2_def)
  have d2: "dicts s2 docs = folded_dict r c" by (simp add: s2_def)
  have step: "collect_endpoint cfg url_prefix (name, f) api_docs s =
     (case relative_path cfg docs s2 of (err, s3) \<Rightarrow>
        (case err of
           Some e \<Rightarrow> (Inl e, s3)
         | None \<Rightarrow>
            (case section_name (dicts s3 docs) of
               None \<Rightarrow> (Inl KeyError, s3)
             | Some sec \<Rightarrow>
                (Inr (insert_variants api_docs sec method docs
                        (folded_uri r c # variants_of (dicts s3 docs))), s3))))"
    using dc own
    by (simp add: collect_endpoint_def part inh r [symmetric] c [symmetric] fe)
  obtain fp where fp: "filepath r = Some fp"
    using ok unfolding step
    by (cases "filepath r") (auto simp: relative_path_def d2 folded_dict_fields)
  define r3 where "r3 = (if startswith fp (root_dir cfg)
             then (folded_dict r c)\<lparr> relfilepath := Some (relpath cfg fp (root_dir cfg)) \<rparr>
             else folded_dict r c)"
  define s3 where "s3 = (if startswith fp (root_dir cfg)
             then s2\<lparr> dicts := (dicts s2)(docs := r3) \<rparr> else s2)"
  have nonempty: "\<not> (startswith fp (root_dir cfg) \<and> fp = [])"
    using ok unfolding step
    by (auto simp: relative_path_def d2 folded_dict_fields fp)
  have rp: "relative_path cfg docs s2 = (None, s3)"
    using nonempty
    by (auto simp: relative_path_def d2 folded_dict_fields fp set_dict_def s3_def r3_def)
  have d3: "dicts s3 docs = r3" by (simp add: s3_def r3_def d2)
  have sec3: "section_name r3 = section_name r" and var3: "variants_of r3 = variants_of r"
    by (simp_all add: r3_def folded_dict_fields variants_of_def)
  obtain sec where sec: "section_name r = Some sec"
    using ok unfolding step rp by (cases "section_name r") (auto simp: d3 sec3)
  have "api_docs' = insert_variants api_docs sec method docs (folded_uri r c # variants_of r)"
    and "s' = s3"
    using ok unfolding step rp by (simp_all add: d3 sec3 var3 sec)
  then show ?thesis using sec fp d3 unfolding r3_def by blast
qed

lemma collect_endpoint_documented:
  assumes dc: "documented s name f"
    and own: "api_doc_attr (funcs s f) = Some own" "own < nxt s"
    and fp: "filepath (dicts s own) = Some fp" "fp \<noteq> []"
    and part: "partition_str name CHR ''_'' = (method, sep, action)"
    and inh: "inherit_fields f own s = (docs, s1)"
    and r: "r = dicts s1 docs"
    and c: "c = canonical_uri r url_prefix action"
  shows "\<exists>sec s'. collect_endpoint cfg url_prefix (name, f) api_docs s =
            (Inr (insert_variants api_docs sec method docs
                    (folded_uri r c # variants_of r)), s') \<and>
          section_name (dicts s own) = Some sec \<and>
          docs = nxt s \<and>
          dicts s' docs =
            (if startswith fp (root_dir cfg)
             then (folded_dict r c)\<lparr> relfilepath := Some (relpath cfg fp (root_dir cfg)) \<rparr>
             else folded_dict r c)"
proof -
  obtain sec where sec: "section_name (dicts s own) = Some sec"
    using dc own by (auto simp: documented_def part)
  have docs: "docs = nxt s" using inh by (simp add: inherit_fields_eq)
  have ne: "own \<noteq> nxt s" using own by simp
  have rsec: "section_name r = Some sec" and rfp: "filepath r = Some fp"
    using inh sec fp ne unfolding r
    by (auto simp: inherit_fields_eq Let_def dict_update_def override_def)
  define s2 where "s2 = s1\<lparr> dicts := (dicts s1)(docs := folded_dict r c) \<rparr>"
  have fe: "fold_extension docs c s1 = (folded_uri r c, s2)"
    by (simp add: fold_extension_folded r s2_def)
  have d2: "dicts s2 docs = folded_dict r c" by (simp add: s2_def)
  define r3 where "r3 = (if startswith fp (root_dir cfg)
             then (folded_dict r c)\<lparr> relfilepath := Some (relpath cfg fp (root_dir cfg)) \<rparr>
             else folded_dict r c)"
  define s3 where "s3 = (if startswith fp (root_dir cfg)
             then s2\<lparr> dicts := (dicts s2)(docs := r3) \<rparr> else s2)"
  have rp: "relative_path cfg docs s2 = (None, s3)"
    using fp(2) by (simp add: relative_path_def d2 folded_dict_fields rfp set_dict_def s3_def r3_def)
  have d3: "dicts s3 docs = r3" by (simp add: s3_def r3_def d2)
  have sec3: "section_name r3 = Some sec" and var3: "variants_of r3 = variants_of r"
    by (simp_all add: r3_def folded_dict_fields rsec variants_of_def)
  have "collect_endpoint cfg url_prefix (name, f) api_docs s =
            (Inr (insert_variants api_docs sec method docs
                    (folded_uri r c # variants_of r)), s3)"
    using dc own(1)
    by (simp add: collect_endpoint_def part inh r [symmetric] c [symmetric] fe rp d3 sec3 var3)
  moreover have "dicts s3 docs = r3" by (rule d3)
  ultimately show ?thesis using sec docs unfolding r3_def by blast
qed

subsection \<open>The merge of two indexes\<close>



subsection \<open>The example inputs, evaluated\<close>

lemmas eval_defs =
  kwargs_dict_def new_dict_def set_dict_def dict_update_def override_def
  empty_dict_def documented_def partition_str_def startswith_def join_uri_def
  canonical_uri_def variants_of_def index_insert_def lookup_def lookup_uri_def
  inherit_fields_eq fold_extension_folded folded_uri_def folded_dict_def
  relative_path_def collect_endpoint_def docs_from_controller_def merge_index_def
  GET_docs_def Let_def

lemma parent_state_fields:
  "nxt parent_state = 1"
  "funcs parent_state f = (funcs init_state f)
     \<lparr> api_doc_attr := (if f = 0 then Some 0 else None) \<rparr>"
  "api_doc ''misc'' kw_child 1 parent_state = (None, family_state)"
  by (simp_all add: parent_state_def family_state_def kw_parent_def kw_child_def
      no_kwargs_def init_state_def model_defs)

lemma family_state_fields:
  "nxt family_state = 2"
  "funcs family_state f = (funcs init_state f)
     \<lparr> api_doc_attr := (if f = 0 then Some 0 else if f = 1 then Some 1 else None) \<rparr>"
  "dicts family_state 0 = empty_dict \<lparr> section_name := Some ''account'',
     uri := Some ''/api/parent'', uri_variants := Some [''/api/alias''],
     extensions := Some [''json''], parameters := Some [(''id'', ''thing id'')],
     filepath := Some ''/srv/r2/controllers/api.py'', lineno := Some 100 \<rparr>"
  "dicts family_state (Suc 0) = empty_dict \<lparr> section_name := Some ''misc'',
     uri := Some ''/api/child'', extends := Some 0,
     filepath := Some ''/srv/r2/controllers/api.py'', lineno := Some 100 \<rparr>"
  by (simp_all add: parent_state_def family_state_def kw_parent_def kw_child_def
      no_kwargs_def init_state_def model_defs)

lemma collected_fields:
  "docs_from_controller example_config family_controller ''/api'' family_state
     = (Inr collected_index, collected_state)"
  "nxt collected_state = 4"
  "dicts collected_state 2 = \<lparr> section_name = Some ''misc'',
     doc = Some (Some ''Docstring.''), uri = Some ''/api/child.json'',
     uri_variants = Some [''/api/alias''], extensions = None, parameters = Some [],
     extends = Some 0, filepath = Some ''/srv/r2/controllers/api.py'',
     lineno = Some 100, relfilepath = Some ''r2/controllers/api.py'' \<rparr>"
  "dicts collected_state 3 = \<lparr> section_name = Some ''account'',
     doc = Some (Some ''Docstring.''), uri = Some ''/api/parent.json'',
     uri_variants = Some [''/api/alias''], extensions = None,
     parameters = Some [(''id'', ''thing id'')], extends = None,
     filepath = Some ''/srv/r2/controllers/api.py'', lineno = Some 100,
     relfilepath = Some ''r2/controllers/api.py'' \<rparr>"
  by (simp_all add: collected_state_def collected_index_def family_controller_def
      example_config_def init_state_def family_state_fields eval_defs)

lemma child_fields:
  "documented family_state ''POST_child'' 1"
  "inherit_fields 1 1 family_state = (2, snd (inherit_fields 1 1 family_state))"
  "dicts (snd (inherit_fields 1 1 family_state)) 2 = \<lparr> section_name = Some ''misc'',
     doc = Some (Some ''Docstring.''), uri = Some ''/api/child'',
     uri_variants = Some [''/api/alias''], extensions = Some [''json''],
     parameters = Some [], extends = Some 0,
     filepath = Some ''/srv/r2/controllers/api.py'', lineno = Some 100,
     relfilepath = None \<rparr>"
  "collect_endpoint example_config ''/api'' (''POST_child'', 1) Map.empty family_state
     = (Inr child_index, child_state)"
  "dicts child_state 2 = \<lparr> section_name = Some ''misc'',
     doc = Some (Some ''Docstring.''), uri = Some ''/api/child.json'',
     uri_variants = Some [''/api/alias''], extensions = None, parameters = Some [],
     extends = Some 0, filepath = Some ''/srv/r2/controllers/api.py'',
     lineno = Some 100, relfilepath = Some ''r2/controllers/api.py'' \<rparr>"
  by (simp_all add: child_index_def child_state_def example_config_def init_state_def
      family_state_fields eval_defs)

lemma listing_state_fields:
  "nxt listing_state = 1"
  "funcs listing_state f = (funcs init_state f)
     \<lparr> api_doc_attr := (if f = 0 then Some 0 else None) \<rparr>"
  "dicts listing_state 0 = empty_dict \<lparr> section_name := Some ''listings'',
     extensions := Some [''json'', ''xml''],
     filepath := Some ''/srv/r2/controllers/api.py'', lineno := Some 100 \<rparr>"
  by (simp_all add: listing_state_def kw_listing_def no_kwargs_def init_state_def model_defs)

lemma listing_fields:
  "documented listing_state ''GET_hot'' 0"
  "inherit_fields 0 0 listing_state = (1, snd (inherit_fields 0 0 listing_state))"
  "dicts (snd (inherit_fields 0 0 listing_state)) 1 = \<lparr> section_name = Some ''listings'',
     doc = Some (Some ''Docstring.''), uri = None, uri_variants = None,
     extensions = Some [''json'', ''xml''], parameters = None, extends = None,
     filepath = Some ''/srv/r2/controllers/api.py'', lineno = Some 100,
     relfilepath = None \<rparr>"
  "collect_endpoint example_config [] (''GET_hot'', 0) Map.empty listing_state
     = (Inr listing_index, listing_collected)"
  "dicts listing_collected 1 = \<lparr> section_name = Some ''listings'',
     doc = Some (Some ''Docstring.''), uri = Some ''/hot'', uri_variants = None,
     extensions = Some [''json'', ''xml''], parameters = None, extends = None,
     filepath = Some ''/srv/r2/controllers/api.py'', lineno = Some 100,
     relfilepath = Some ''r2/controllers/api.py'' \<rparr>"
  by (simp_all add: listing_index_def listing_collected_def example_config_def init_state_def
      listing_state_fields eval_defs)

lemma empty_uri_state_fields:
  "nxt empty_uri_state = 1"
  "funcs empty_uri_state f = (funcs init_state f)
     \<lparr> api_doc_attr := (if f = 0 then Some 0 else None) \<rparr>"
  "dicts empty_uri_state 0 = empty_dict \<lparr> section_name := Some ''account'',
     uri := Some [], filepath := Some ''/srv/r2/controllers/api.py'',
     lineno := Some 100 \<rparr>"
  by (simp_all add: empty_uri_state_def kw_empty_uri_def no_kwargs_def init_state_def
      model_defs)

lemma empty_uri_fields:
  "documented empty_uri_state ''GET_me'' 0"
  "inherit_fields 0 0 empty_uri_state = (1, snd (inherit_fields 0 0 empty_uri_state))"
  "uri (dicts (snd (inherit_fields 0 0 empty_uri_state)) 1) = Some []"
  "collect_endpoint example_config ''/api'' (''GET_me'', 0) Map.empty empty_uri_state
     = (Inr empty_uri_index, empty_uri_collected)"
  "uri (dicts empty_uri_collected 1) = Some ''/api/me''"
  by (simp_all add: empty_uri_index_def empty_uri_collected_def example_config_def
      init_state_def empty_uri_state_fields eval_defs)






lemma reattached_state_fields:
  "api_doc ''account'' kw_moved 0 family_state = (None, reattached_state)"
  "nxt reattached_state = 2"
  "funcs reattached_state f = funcs family_state f"
  "dicts reattached_state 0 = empty_dict \<lparr> section_name := Some ''account'',
     uri := Some ''/api/parent'', uri_variants := Some [''/api/moved''],
     extensions := Some [''json''], parameters := Some [(''id'', ''thing id'')],
     filepath := Some ''/srv/r2/controllers/api.py'', lineno := Some 100 \<rparr>"
  "dicts reattached_state (Suc 0) = dicts family_state (Suc 0)"
  by (simp_all add: reattached_state_def kw_moved_def no_kwargs_def init_state_def
      family_state_fields model_defs)

lemma reattached_collected_fields:
  "uri_variants (dicts reattached_collected 2) = Some [''/api/moved'']"
  by (simp add: reattached_collected_def example_config_def init_state_def
      reattached_state_fields family_state_fields eval_defs)

lemma orphan_state_fields:
  "api_doc ''misc'' kw_orphan_child 1 unsectioned_state = (None, orphan_state)"
  "nxt orphan_state = 2"
  "funcs orphan_state f = (funcs init_state f)
     \<lparr> api_doc_attr := (if f = 0 then Some 0 else if f = 1 then Some 1 else None) \<rparr>"
  "dicts orphan_state 0 = empty_dict \<lparr> uri := Some ''/api/orphan'' \<rparr>"
  "dicts orphan_state (Suc 0) = empty_dict \<lparr> section_name := Some ''misc'',
     extends := Some 0, filepath := Some ''/srv/r2/controllers/api.py'',
     lineno := Some 100 \<rparr>"
  by (simp_all add: orphan_state_def kw_orphan_child_def unsectioned_state_def
      no_kwargs_def init_state_def model_defs)

lemma orphan_fields:
  "documented orphan_state ''GET_kid'' 1"
  "inherit_fields 1 1 orphan_state = (2, snd (inherit_fields 1 1 orphan_state))"
  "collect_endpoint example_config ''/api'' (''GET_kid'', 1) Map.empty orphan_state
     = (Inr orphan_index, orphan_collected)"
  "uri (dicts (snd (inherit_fields 1 1 orphan_state)) 2) = Some ''/api/orphan''"
  "uri (dicts orphan_collected 2) = Some ''/api/orphan''"
  by (simp_all add: orphan_index_def orphan_collected_def example_config_def
      init_state_def orphan_state_fields eval_defs)

section \<open>The claims\<close>

subsection \<open>The section registry is not consulted\<close>




subsection \<open>Merging the indexes of several controllers\<close>




subsection \<open>Inheritance resolution\<close>



subsection \<open>Extension folding\<close>

text \<open>
  Claim C4.  For a collected endpoint, let \<open>r\<close> be the record after inheritance
  resolution and \<open>c\<close> its canonical URI.  When \<open>extensions\<close> of \<open>r\<close> has exactly
  one entry \<open>e\<close>, the record in the index has the URI \<open>c.e\<close> and no \<open>extensions\<close>
  key; when it has no entry or more than one, the record has the URI \<open>c\<close> and its
  \<open>extensions\<close> as they were (and likewise when the key is absent).
\<close>

theorem single_extension_folded_into_uri:
  assumes "documented s name f"
    and "api_doc_attr (funcs s f) = Some own"
    and "partition_str name CHR ''_'' = (method, sep, action)"
    and "inherit_fields f own s = (docs, s1)"
    and "collect_endpoint cfg url_prefix (name, f) api_docs s = (Inr api_docs', s')"
  shows "(\<forall>e. extensions (dicts s1 docs) = Some [e] \<longrightarrow>
            uri (dicts s' docs) =
              Some (canonical_uri (dicts s1 docs) url_prefix action @ ''.'' @ e) \<and>
            extensions (dicts s' docs) = None) \<and>
         (\<forall>exts. extensions (dicts s1 docs) = Some exts \<and> length exts \<noteq> 1 \<longrightarrow>
            uri (dicts s' docs) = Some (canonical_uri (dicts s1 docs) url_prefix action) \<and>
            extensions (dicts s' docs) = Some exts) \<and>
         (extensions (dicts s1 docs) = None \<longrightarrow>
            uri (dicts s' docs) = Some (canonical_uri (dicts s1 docs) url_prefix action) \<and>
            extensions (dicts s' docs) = None)"
proof -
  from collect_endpoint_collected [OF assms refl refl]
  obtain fp where final: "dicts s' docs =
     (if startswith fp (root_dir cfg)
      then (folded_dict (dicts s1 docs) (canonical_uri (dicts s1 docs) url_prefix action))
             \<lparr> relfilepath := Some (relpath cfg fp (root_dir cfg)) \<rparr>
      else folded_dict (dicts s1 docs) (canonical_uri (dicts s1 docs) url_prefix action))"
    by blast
  show ?thesis
    unfolding final by (simp add: folded_dict_def)
qed

text \<open>
  The child endpoint of the example inherits the single extension \<open>json\<close>; the
  listing endpoint declares two extensions.
\<close>

theorem single_extension_folded_witness:
  "documented family_state ''POST_child'' 1 \<and>
   api_doc_attr (funcs family_state 1) = Some 1 \<and>
   partition_str ''POST_child'' CHR ''_'' = (''POST'', ''_'', ''child'') \<and>
   extensions (dicts (snd (inherit_fields 1 1 family_state)) 2) = Some [''json''] \<and>
   canonical_uri (dicts (snd (inherit_fields 1 1 family_state)) 2) ''/api'' ''child''
     = ''/api/child'' \<and>
   collect_endpoint example_config ''/api'' (''POST_child'', 1) Map.empty family_state
     = (Inr child_index, child_state) \<and>
   uri (dicts child_state 2) = Some ''/api/child.json'' \<and>
   extensions (dicts child_state 2) = None \<and>
   documented listing_state ''GET_hot'' 0 \<and>
   api_doc_attr (funcs listing_state 0) = Some 0 \<and>
   partition_str ''GET_hot'' CHR ''_'' = (''GET'', ''_'', ''hot'') \<and>
   extensions (dicts (snd (inherit_fields 0 0 listing_state)) 1) = Some [''json'', ''xml''] \<and>
   canonical_uri (dicts (snd (inherit_fields 0 0 listing_state)) 1) [] ''hot'' = ''/hot'' \<and>
   collect_endpoint example_config [] (''GET_hot'', 0) Map.empty listing_state
     = (Inr listing_index, listing_collected) \<and>
   uri (dicts listing_collected 1) = Some ''/hot'' \<and>
   extensions (dicts listing_collected 1) = Some [''json'', ''xml'']"
proof -
  have a1: "api_doc_attr (funcs family_state 1) = Some 1"
    and a2: "api_doc_attr (funcs listing_state 0) = Some 0"
    by (simp_all add: family_state_fields listing_state_fields)
  have p1: "partition_str ''POST_child'' CHR ''_'' = (''POST'', ''_'', ''child'')"
    and p2: "partition_str ''GET_hot'' CHR ''_'' = (''GET'', ''_'', ''hot'')"
    by (simp_all add: partition_str_def)
  have c1: "canonical_uri (dicts (snd (inherit_fields 1 1 family_state)) 2) ''/api'' ''child''
     = ''/api/child''"
    and c2: "canonical_uri (dicts (snd (inherit_fields 0 0 listing_state)) 1) [] ''hot'' = ''/hot''"
    using child_fields(3) listing_fields(3)
    by (simp_all add: canonical_uri_def join_uri_def)
  from single_extension_folded_into_uri
         [OF child_fields(1) a1 p1 child_fields(2) child_fields(4)]
       single_extension_folded_into_uri
         [OF listing_fields(1) a2 p2 listing_fields(2) listing_fields(4)]
       a1 a2 p1 p2 c1 c2 child_fields(1,3,4) listing_fields(1,3,4)
  show ?thesis
    by simp
qed

subsection \<open>Index insertion\<close>

text \<open>
  Claim C5.  For a collected endpoint, the record \<open>docs\<close> is stored at
  \<open>[section][uri][method]\<close> for the record's URI first and then for every entry of
  its \<open>uri_variants\<close>, in their order; afterwards every one of these URIs leads, in
  the record's section and under the endpoint's method, to this one record.
\<close>

theorem record_filed_under_uri_and_variants:
  assumes "documented s name f"
    and "api_doc_attr (funcs s f) = Some own"
    and "partition_str name CHR ''_'' = (method, sep, action)"
    and "inherit_fields f own s = (docs, s1)"
    and "collect_endpoint cfg url_prefix (name, f) api_docs s = (Inr api_docs', s')"
  shows "\<exists>sec u. section_name (dicts s' docs) = Some sec \<and> uri (dicts s' docs) = Some u \<and>
           api_docs' = insert_variants api_docs sec method docs
                         (u # variants_of (dicts s' docs)) \<and>
           (\<forall>v \<in> set (u # variants_of (dicts s' docs)).
              lookup api_docs' sec v method = Some docs)"
proof -
  define r where "r = dicts s1 docs"
  define c where "c = canonical_uri r url_prefix action"
  from collect_endpoint_collected [OF assms r_def c_def]
  obtain sec fp where sec: "section_name r = Some sec"
    and idx: "api_docs' = insert_variants api_docs sec method docs
                (folded_uri r c # variants_of r)"
    and final: "dicts s' docs =
     (if startswith fp (root_dir cfg)
      then (folded_dict r c)\<lparr> relfilepath := Some (relpath cfg fp (root_dir cfg)) \<rparr>
      else folded_dict r c)"
    by blast
  have "section_name (dicts s' docs) = Some sec"
    and "uri (dicts s' docs) = Some (folded_uri r c)"
    and "variants_of (dicts s' docs) = variants_of r"
    unfolding final by (simp_all add: folded_dict_fields sec variants_of_def)
  moreover have "\<forall>v \<in> set (folded_uri r c # variants_of r).
      lookup api_docs' sec v method = Some docs"
    unfolding idx by (simp add: lookup_insert_variants lookup_index_insert)
  ultimately show ?thesis using idx by auto
qed

text \<open>
  The child endpoint of the example is filed in section \<open>misc\<close> under its own URI
  and under the variant it inherits; both entries are the record 2.
\<close>

theorem record_filed_witness:
  "documented family_state ''POST_child'' 1 \<and>
   api_doc_attr (funcs family_state 1) = Some 1 \<and>
   partition_str ''POST_child'' CHR ''_'' = (''POST'', ''_'', ''child'') \<and>
   collect_endpoint example_config ''/api'' (''POST_child'', 1) Map.empty family_state
     = (Inr child_index, child_state) \<and>
   section_name (dicts child_state 2) = Some ''misc'' \<and>
   uri (dicts child_state 2) = Some ''/api/child.json'' \<and>
   variants_of (dicts child_state 2) = [''/api/alias''] \<and>
   child_index = insert_variants Map.empty ''misc'' ''POST'' 2
                   [''/api/child.json'', ''/api/alias''] \<and>
   lookup child_index ''misc'' ''/api/child.json'' ''POST'' = Some 2 \<and>
   lookup child_index ''misc'' ''/api/alias'' ''POST'' = Some 2"
proof -
  have a1: "api_doc_attr (funcs family_state 1) = Some 1"
    by (simp add: family_state_fields)
  have p1: "partition_str ''POST_child'' CHR ''_'' = (''POST'', ''_'', ''child'')"
    by (simp add: partition_str_def)
  have v: "variants_of (dicts child_state 2) = [''/api/alias'']"
    by (simp add: child_fields(5) variants_of_def)
  from record_filed_under_uri_and_variants
         [OF child_fields(1) a1 p1 child_fields(2) child_fields(4)]
       a1 p1 v child_fields(1,4,5)
  show ?thesis by simp
qed

subsection \<open>Endpoints that are skipped\<close>

text \<open>
  Claim C6.  An endpoint whose name has no action after the first \<open>_\<close>, or whose
  method part is neither GET nor POST, or that has no \<open>_api_doc\<close> attribute, or whose
  dictionary has no \<open>section\<close>, is skipped without an error: the body of the loop
  leaves the index and the store as they are, so that collection continues exactly as
  if the endpoint were not a member of the controller.
\<close>

theorem skipped_endpoint_contributes_nothing:
  assumes "partition_str name CHR ''_'' = (method, sep, action)"
    and "action = [] \<or> (method \<noteq> ''GET'' \<and> method \<noteq> ''POST'') \<or>
         api_doc_attr (funcs s f) = None \<or>
         (\<exists>own. api_doc_attr (funcs s f) = Some own \<and> section_name (dicts s own) = None)"
  shows "collect_endpoint cfg url_prefix (name, f) api_docs s = (Inr api_docs, s) \<and>
         collect_loop cfg url_prefix ((name, f) # rest) api_docs s =
           collect_loop cfg url_prefix rest api_docs s"
proof -
  have "\<not> documented s name f"
    using assms by (auto simp: documented_def split: option.splits)
  then have "collect_endpoint cfg url_prefix (name, f) api_docs s = (Inr api_docs, s)"
    by (simp add: collect_endpoint_def split_def)
  then show ?thesis by simp
qed

text \<open>
  One instance for each of the four reasons: the name \<open>GET\<close>, the method PUT, a
  function without annotation, and a dictionary without section.
\<close>

theorem skipped_endpoint_witness:
  "partition_str ''GET'' CHR ''_'' = (''GET'', [], []) \<and>
   collect_endpoint example_config ''/api'' (''GET'', 0) Map.empty family_state
     = (Inr Map.empty, family_state) \<and>
   partition_str ''PUT_parent'' CHR ''_'' = (''PUT'', ''_'', ''parent'') \<and>
   collect_endpoint example_config ''/api'' (''PUT_parent'', 0) Map.empty family_state
     = (Inr Map.empty, family_state) \<and>
   partition_str ''GET_other'' CHR ''_'' = (''GET'', ''_'', ''other'') \<and>
   api_doc_attr (funcs family_state 2) = None \<and>
   collect_endpoint example_config ''/api'' (''GET_other'', 2) Map.empty family_state
     = (Inr Map.empty, family_state) \<and>
   api_doc_attr (funcs unsectioned_state 0) = Some 0 \<and>
   section_name (dicts unsectioned_state 0) = None \<and>
   collect_endpoint example_config ''/api'' (''GET_other'', 0) Map.empty unsectioned_state
     = (Inr Map.empty, unsectioned_state)"
proof -
  have p1: "partition_str ''GET'' CHR ''_'' = (''GET'', [], [])"
    and p2: "partition_str ''PUT_parent'' CHR ''_'' = (''PUT'', ''_'', ''parent'')"
    and p3: "partition_str ''GET_other'' CHR ''_'' = (''GET'', ''_'', ''other'')"
    by (simp_all add: partition_str_def)
  have a3: "api_doc_attr (funcs family_state 2) = None"
    by (simp add: family_state_fields init_state_def)
  have a4: "api_doc_attr (funcs unsectioned_state 0) = Some 0"
    and s4: "section_name (dicts unsectioned_state 0) = None"
    by (simp_all add: unsectioned_state_def init_state_def empty_dict_def)
  from skipped_endpoint_contributes_nothing [OF p1, where s = family_state and f = 0]
    skipped_endpoint_contributes_nothing [OF p2, where s = family_state and f = 0]
    skipped_endpoint_contributes_nothing [OF p3, where s = family_state and f = 2]
    skipped_endpoint_contributes_nothing [OF p3, where s = unsectioned_state and f = 0]
    p1 p2 p3 a3 a4 s4
  show ?thesis by simp
qed

subsection \<open>The reference stored under \<open>extends\<close>\<close>

text \<open>
  Claim C7, as the source has it.  \<open>kwargs['extends']._api_doc\<close> is the dictionary
  object of the referenced function itself, and this reference is what the decorator
  stores; no copy is made.  A later application of the decorator to the referenced
  function updates that dictionary in place.  So after any later attachment to the
  referenced function the child's \<open>extends\<close> still refers to the dictionary that is
  the referenced function's \<open>_api_doc\<close>, with the contents the later attachment gave it.
\<close>

theorem extends_is_live_reference:
  assumes "kw_extends kw = Some g"
    and "api_doc_attr (funcs s g) = Some a"
    and "a < nxt s"
    and "f \<noteq> g"
    and "api_doc_attr (funcs s f) \<noteq> Some a"
    and "api_doc sec kw f s = (e1, s1)"
    and "api_doc sec2 kw2 g s1 = (e2, s2)"
  shows "e1 = None \<and>
         (\<exists>c. c \<noteq> a \<and>
            api_doc_attr (funcs s1 f) = Some c \<and> extends (dicts s1 c) = Some a \<and>
            api_doc_attr (funcs s1 g) = Some a \<and>
            api_doc_attr (funcs s2 f) = Some c \<and> extends (dicts s2 c) = Some a \<and>
            api_doc_attr (funcs s2 g) = Some a) \<and>
         (e2 = None \<longrightarrow>
            (\<exists>ext. dicts s2 a =
               (dict_update (dicts s1 a) (kwargs_dict kw2 ext))
                 \<lparr> section_name := Some sec2,
                   filepath := Some (co_filename (funcs s1 g)),
                   lineno := Some (co_firstlineno (funcs s1 g)) \<rparr>))"
proof -
  define c where "c = (case api_doc_attr (funcs s f) of Some c0 \<Rightarrow> c0 | None \<Rightarrow> nxt s)"
  have ca: "c \<noteq> a"
    using assms(3,5) by (auto simp: c_def split: option.splits)
  have first: "e1 = None \<and> api_doc_attr (funcs s1 f) = Some c \<and>
     extends (dicts s1 c) = Some a \<and> api_doc_attr (funcs s1 g) = Some a"
    using assms(1,2,4,6)
    by (auto simp: api_doc_def new_dict_def set_dict_def kwargs_dict_def dict_update_def
        override_def c_def Let_def split: option.splits)
  then have g1: "api_doc_attr (funcs s1 g) = Some a" by simp
  have second: "api_doc_attr (funcs s2 f) = api_doc_attr (funcs s1 f) \<and>
     dicts s2 c = dicts s1 c \<and> api_doc_attr (funcs s2 g) = Some a \<and>
     (e2 = None \<longrightarrow>
        (\<exists>ext. dicts s2 a =
           (dict_update (dicts s1 a) (kwargs_dict kw2 ext))
             \<lparr> section_name := Some sec2,
               filepath := Some (co_filename (funcs s1 g)),
               lineno := Some (co_firstlineno (funcs s1 g)) \<rparr>))"
    using assms(4,7) g1 ca
    by (auto simp: api_doc_def set_dict_def Let_def split: option.splits)
  from first second ca show ?thesis by auto
qed

text \<open>
  In the example the parent is annotated again after the child: the child's
  \<open>extends\<close> refers to dictionary 0 before and after, and dictionary 0 has the new
  variants.
\<close>

theorem extends_is_live_reference_witness:
  "kw_extends kw_child = Some 0 \<and>
   api_doc_attr (funcs parent_state 0) = Some 0 \<and>
   (0::nat) < nxt parent_state \<and>
   api_doc_attr (funcs parent_state 1) = None \<and>
   api_doc ''misc'' kw_child 1 parent_state = (None, family_state) \<and>
   api_doc ''account'' kw_moved 0 family_state = (None, reattached_state) \<and>
   api_doc_attr (funcs family_state 1) = Some 1 \<and>
   extends (dicts family_state 1) = Some 0 \<and>
   api_doc_attr (funcs reattached_state 1) = Some 1 \<and>
   extends (dicts reattached_state 1) = Some 0 \<and>
   api_doc_attr (funcs reattached_state 0) = Some 0 \<and>
   uri_variants (dicts reattached_state 0) = Some [''/api/moved'']"
proof -
  have k: "kw_extends kw_child = Some 0"
    by (simp add: kw_child_def no_kwargs_def)
  have a: "api_doc_attr (funcs parent_state 0) = Some 0"
    and n: "(0::nat) < nxt parent_state"
    and b: "api_doc_attr (funcs parent_state 1) = None"
    by (simp_all add: parent_state_fields)
  have b': "api_doc_attr (funcs parent_state 1) \<noteq> Some 0"
    using b by simp
  have d: "(1::nat) \<noteq> 0" by simp
  have f: "api_doc_attr (funcs family_state 1) = Some 1"
    by (simp add: family_state_fields)
  have v: "uri_variants (dicts reattached_state 0) = Some [''/api/moved'']"
    by (simp add: reattached_state_fields(4))
  from extends_is_live_reference
         [OF k a n d b' parent_state_fields(3) reattached_state_fields(1)]
       k a n b f v parent_state_fields(3) reattached_state_fields(1)
  show ?thesis by auto
qed

text \<open>
  The claim as the specification states it fails: the dictionary the child's
  \<open>extends\<close> refers to changes with the later attachment to the parent, and the child
  collected afterwards inherits the new variants.
\<close>

theorem extends_snapshot_counterexample:
  "api_doc ''misc'' kw_child 1 parent_state = (None, family_state) \<and>
   extends (dicts family_state 1) = Some 0 \<and>
   uri_variants (dicts family_state 0) = Some [''/api/alias''] \<and>
   api_doc ''account'' kw_moved 0 family_state = (None, reattached_state) \<and>
   extends (dicts reattached_state 1) = Some 0 \<and>
   uri_variants (dicts reattached_state 0) = Some [''/api/moved''] \<and>
   dicts reattached_state 0 \<noteq> dicts family_state 0 \<and>
   uri_variants (dicts child_state 2) = Some [''/api/alias''] \<and>
   uri_variants (dicts reattached_collected 2) = Some [''/api/moved'']"
proof -
  have "uri_variants (dicts family_state 0) = Some [''/api/alias'']"
    and "uri_variants (dicts reattached_state 0) = Some [''/api/moved'']"
    and "extends (dicts family_state 1) = Some 0"
    and "extends (dicts reattached_state 1) = Some 0"
    by (simp_all add: family_state_fields reattached_state_fields(4,5))
  moreover from this have "dicts reattached_state 0 \<noteq> dicts family_state 0"
    by auto
  moreover have "uri_variants (dicts child_state 2) = Some [''/api/alias'']"
    by (simp add: child_fields(5))
  ultimately show ?thesis
    using parent_state_fields(3) reattached_state_fields(1) reattached_collected_fields
    by simp
qed

subsection \<open>The collector writes to its own records only\<close>

text \<open>
  Claim C8.  Collection never changes a dictionary that existed before it ran, nor any
  function object: whatever \<open>docs_from_controller\<close> returns, an error included, every
  dictionary allocated before the call has the contents it had, so that every endpoint's
  attached dictionary, with its \<open>extensions\<close>, \<open>parameters\<close> and \<open>uri_variants\<close>, is
  the same before and after.  Extension folding and the other steps write to the
  dictionaries the collector allocates itself.
\<close>

theorem collector_never_mutates_attached_metadata:
  assumes "docs_from_controller cfg controller url_prefix s = (res, s')"
  shows "funcs s' = funcs s \<and>
         (\<forall>a. a < nxt s \<longrightarrow> dicts s' a = dicts s a) \<and>
         (\<forall>f own. api_doc_attr (funcs s f) = Some own \<and> own < nxt s \<longrightarrow>
            api_doc_attr (funcs s' f) = Some own \<and> dicts s' own = dicts s own)"
proof -
  have "preserves s s'"
    using assms unfolding docs_from_controller_def by (rule collect_loop_preserves)
  then show ?thesis by (simp add: preserves_def)
qed

text \<open>
  The two annotated functions of the example: collection allocates the records 2 and 3,
  folds the extension \<open>json\<close> in both of them, and leaves the dictionaries 0 and 1 as
  they were.
\<close>

theorem collector_never_mutates_witness:
  "docs_from_controller example_config family_controller ''/api'' family_state
     = (Inr collected_index, collected_state) \<and>
   nxt family_state = 2 \<and> nxt collected_state = 4 \<and>
   api_doc_attr (funcs family_state 0) = Some 0 \<and>
   api_doc_attr (funcs collected_state 0) = Some 0 \<and>
   dicts collected_state 0 = dicts family_state 0 \<and>
   dicts collected_state 1 = dicts family_state 1 \<and>
   extensions (dicts collected_state 0) = Some [''json''] \<and>
   extensions (dicts collected_state 2) = None \<and>
   extensions (dicts collected_state 3) = None"
proof -
  note run = collected_fields(1)
  have a: "api_doc_attr (funcs family_state 0) = Some 0"
    by (simp add: family_state_fields)
  from collector_never_mutates_attached_metadata [OF run] run a
  show ?thesis by (simp add: family_state_fields collected_fields)
qed

subsection \<open>An \<open>extends\<close> reference without annotation or without section\<close>

text \<open>
  Claim C9, as the source has it.  When the object given as \<open>extends\<close> is another
  function that has no \<open>_api_doc\<close> attribute, the decorator raises AttributeError.
  When the dictionary under \<open>extends\<close> has no section, collection of the referring
  endpoint does not fail on that account (an endpoint whose own dictionary carries a
  non-empty file path is collected), and the fields of that dictionary are inherited
  like those of any other: the record is built from them, they are not taken as
  empty.
\<close>

theorem extends_without_annotation_or_section:
  assumes "kw_extends kw = Some g"
    and "g \<noteq> f0"
    and "api_doc_attr (funcs s0 g) = None"
    and "documented s name f"
    and "api_doc_attr (funcs s f) = Some own"
    and "own < nxt s"
    and "extends (dicts s own) = Some par"
    and "par < nxt s"
    and "section_name (dicts s par) = None"
    and "filepath (dicts s own) = Some fp"
    and "fp \<noteq> []"
    and "partition_str name CHR ''_'' = (method, sep, action)"
    and "inherit_fields f own s = (docs, s1)"
  shows "fst (api_doc sec kw f0 s0) = Some AttributeError \<and>
         (\<exists>api_docs' s'.
            collect_endpoint cfg url_prefix (name, f) api_docs s = (Inr api_docs', s')) \<and>
         dicts s1 docs =
           dict_update
             ((dict_update (empty_dict\<lparr> doc := Some (getdoc (funcs s f)) \<rparr>) (dicts s par))
                \<lparr> parameters := Some [] \<rparr>)
             (dicts s own) \<and>
         uri (dicts s1 docs) =
           (case uri (dicts s own) of Some u \<Rightarrow> Some u | None \<Rightarrow> uri (dicts s par)) \<and>
         uri_variants (dicts s1 docs) =
           (case uri_variants (dicts s own) of Some vs \<Rightarrow> Some vs
            | None \<Rightarrow> uri_variants (dicts s par)) \<and>
         extensions (dicts s1 docs) =
           (case extensions (dicts s own) of Some es \<Rightarrow> Some es
            | None \<Rightarrow> extensions (dicts s par))"
proof -
  have attach: "fst (api_doc sec kw f0 s0) = Some AttributeError"
    using assms(1,2,3)
    by (auto simp: api_doc_def new_dict_def Let_def split: option.splits)
  from collect_endpoint_documented [OF assms(4,5,6,10,11,12,13) refl refl, of cfg url_prefix api_docs]
  have run: "\<exists>api_docs' s'.
            collect_endpoint cfg url_prefix (name, f) api_docs s = (Inr api_docs', s')"
    by blast
  have ne: "own \<noteq> nxt s" "par \<noteq> nxt s" using assms(6,8) by simp_all
  have r: "dicts s1 docs =
           dict_update
             ((dict_update (empty_dict\<lparr> doc := Some (getdoc (funcs s f)) \<rparr>) (dicts s par))
                \<lparr> parameters := Some [] \<rparr>)
             (dicts s own)"
    using assms(13) assms(7) ne by (auto simp: inherit_fields_eq Let_def)
  have fields:
    "uri (dicts s1 docs) =
       (case uri (dicts s own) of Some u \<Rightarrow> Some u | None \<Rightarrow> uri (dicts s par))"
    "uri_variants (dicts s1 docs) =
       (case uri_variants (dicts s own) of Some vs \<Rightarrow> Some vs
        | None \<Rightarrow> uri_variants (dicts s par))"
    "extensions (dicts s1 docs) =
       (case extensions (dicts s own) of Some es \<Rightarrow> Some es
        | None \<Rightarrow> extensions (dicts s par))"
    unfolding r
    by (simp_all add: dict_update_def override_def empty_dict_def split: option.splits)
  from attach run r fields show ?thesis by blast
qed

text \<open>
  Function 5 of the empty store has no annotation; in the other store the dictionary
  of function 0 has a URI and no section, and function 1, which extends it, is
  collected with that URI.
\<close>

theorem extends_without_annotation_witness:
  "kw_extends kw_dangling = Some 5 \<and>
   api_doc_attr (funcs init_state 5) = None \<and>
   fst (api_doc ''account'' kw_dangling 0 init_state) = Some AttributeError \<and>
   documented orphan_state ''GET_kid'' 1 \<and>
   api_doc_attr (funcs orphan_state 1) = Some 1 \<and>
   (1::nat) < nxt orphan_state \<and> (0::nat) < nxt orphan_state \<and>
   extends (dicts orphan_state 1) = Some 0 \<and>
   section_name (dicts orphan_state 0) = None \<and>
   uri (dicts orphan_state 0) = Some ''/api/orphan'' \<and>
   uri (dicts orphan_state 1) = None \<and>
   filepath (dicts orphan_state 1) = Some ''/srv/r2/controllers/api.py'' \<and>
   partition_str ''GET_kid'' CHR ''_'' = (''GET'', ''_'', ''kid'') \<and>
   collect_endpoint example_config ''/api'' (''GET_kid'', 1) Map.empty orphan_state
     = (Inr orphan_index, orphan_collected) \<and>
   uri (dicts (snd (inherit_fields 1 1 orphan_state)) 2) = Some ''/api/orphan''"
proof -
  have k: "kw_extends kw_dangling = Some 5"
    and g: "(5::nat) \<noteq> 0"
    and n5: "api_doc_attr (funcs init_state 5) = None"
    by (simp_all add: kw_dangling_def no_kwargs_def init_state_def)
  have a: "api_doc_attr (funcs orphan_state 1) = Some 1"
    and n: "(1::nat) < nxt orphan_state" "(0::nat) < nxt orphan_state"
    and e: "extends (dicts orphan_state 1) = Some 0"
    and sn: "section_name (dicts orphan_state 0) = None"
    and u: "uri (dicts orphan_state 0) = Some ''/api/orphan''"
       "uri (dicts orphan_state 1) = None"
    and fp: "filepath (dicts orphan_state 1) = Some ''/srv/r2/controllers/api.py''"
    and ne: "''/srv/r2/controllers/api.py'' \<noteq> []"
    by (simp_all add: orphan_state_fields empty_dict_def)
  have p: "partition_str ''GET_kid'' CHR ''_'' = (''GET'', ''_'', ''kid'')"
    by (simp add: partition_str_def)
  note th = extends_without_annotation_or_section
         [OF k g n5 orphan_fields(1) a n(1) e n(2) sn fp ne p orphan_fields(2),
          where sec = "''account''" and cfg = example_config and url_prefix = "''/api''"
            and api_docs = Map.empty]
  from th have att: "fst (api_doc ''account'' kw_dangling 0 init_state) = Some AttributeError"
    by (rule conjunct1)
  from th have "uri (dicts (snd (inherit_fields 1 1 orphan_state)) 2) =
      (case uri (dicts orphan_state 1) of Some u \<Rightarrow> Some u
       | None \<Rightarrow> uri (dicts orphan_state 0))"
    by blast
  then have inh: "uri (dicts (snd (inherit_fields 1 1 orphan_state)) 2) = Some ''/api/orphan''"
    by (simp only: u option.case)
  note att inh
  with k n5 a n e sn u fp p orphan_fields(1,3) show ?thesis by simp
qed

text \<open>
  The claim as the specification states it fails on both counts: the attachment
  raises, and the endpoint that extends a dictionary without section is filed under
  the URI it inherits from it rather than under the derived \<open>/api/kid\<close>.
\<close>

theorem dangling_extends_counterexample:
  "api_doc_attr (funcs init_state 5) = None \<and>
   kw_extends kw_dangling = Some 5 \<and>
   fst (api_doc ''account'' kw_dangling 0 init_state) = Some AttributeError \<and>
   section_name (dicts orphan_state 0) = None \<and>
   extends (dicts orphan_state 1) = Some 0 \<and>
   collect_endpoint example_config ''/api'' (''GET_kid'', 1) Map.empty orphan_state
     = (Inr orphan_index, orphan_collected) \<and>
   uri (dicts orphan_collected 2) = Some ''/api/orphan'' \<and>
   join_uri ''/api'' ''kid'' = ''/api/kid''"
proof -
  have "fst (api_doc ''account'' kw_dangling 0 init_state) = Some AttributeError"
    by (simp add: kw_dangling_def no_kwargs_def init_state_def model_defs)
  moreover have "api_doc_attr (funcs init_state 5) = None"
    and "kw_extends kw_dangling = Some 5"
    by (simp_all add: kw_dangling_def no_kwargs_def init_state_def)
  moreover have "section_name (dicts orphan_state 0) = None"
    and "extends (dicts orphan_state 1) = Some 0"
    by (simp_all add: orphan_state_fields empty_dict_def)
  ultimately show ?thesis
    using orphan_fields(3,5) by (simp add: join_uri_def)
qed

subsection \<open>An empty URI\<close>

text \<open>
  Claim C10.  When the record after inheritance resolution has the key \<open>uri\<close> with
  the empty string as its value, the canonical URI is the URL prefix and the action
  joined by \<open>/\<close>, exactly as when the key is absent; the collected record carries
  this URI (with a single extension folded into it), never the empty string.
\<close>

theorem empty_uri_treated_as_absent:
  assumes "documented s name f"
    and "api_doc_attr (funcs s f) = Some own"
    and "partition_str name CHR ''_'' = (method, sep, action)"
    and "inherit_fields f own s = (docs, s1)"
    and "collect_endpoint cfg url_prefix (name, f) api_docs s = (Inr api_docs', s')"
    and "uri (dicts s1 docs) = Some []"
  shows "canonical_uri (dicts s1 docs) url_prefix action = url_prefix @ ''/'' @ action \<and>
         canonical_uri (dicts s1 docs) url_prefix action =
           canonical_uri ((dicts s1 docs)\<lparr> uri := None \<rparr>) url_prefix action \<and>
         uri (dicts s' docs) =
           Some (fst (fold_extension docs (url_prefix @ ''/'' @ action) s1)) \<and>
         uri (dicts s' docs) \<noteq> Some []"
proof -
  define r where "r = dicts s1 docs"
  define c where "c = canonical_uri r url_prefix action"
  have c: "c = url_prefix @ ''/'' @ action"
    using assms(6) by (simp add: c_def r_def canonical_uri_def join_uri_def)
  have same: "c = canonical_uri (r\<lparr> uri := None \<rparr>) url_prefix action"
    by (simp add: c canonical_uri_def join_uri_def)
  from collect_endpoint_collected [OF assms(1-5) r_def c_def]
  obtain fp where final: "dicts s' docs =
     (if startswith fp (root_dir cfg)
      then (folded_dict r c)\<lparr> relfilepath := Some (relpath cfg fp (root_dir cfg)) \<rparr>
      else folded_dict r c)"
    by blast
  have u: "uri (dicts s' docs) = Some (folded_uri r c)"
    unfolding final by (simp add: folded_dict_fields)
  have f: "fst (fold_extension docs c s1) = folded_uri r c"
    by (simp add: fold_extension_folded r_def)
  have ne: "folded_uri r c \<noteq> []"
    by (simp add: folded_uri_def c split: option.splits)
  show ?thesis
    using c same u f ne unfolding c_def r_def by simp
qed

text \<open>
  The endpoint of the example is annotated with the empty string as its URI and is
  collected with the URI \<open>/api/me\<close>.
\<close>

theorem empty_uri_witness:
  "documented empty_uri_state ''GET_me'' 0 \<and>
   api_doc_attr (funcs empty_uri_state 0) = Some 0 \<and>
   partition_str ''GET_me'' CHR ''_'' = (''GET'', ''_'', ''me'') \<and>
   uri (dicts empty_uri_state 0) = Some [] \<and>
   uri (dicts (snd (inherit_fields 0 0 empty_uri_state)) 1) = Some [] \<and>
   collect_endpoint example_config ''/api'' (''GET_me'', 0) Map.empty empty_uri_state
     = (Inr empty_uri_index, empty_uri_collected) \<and>
   canonical_uri (dicts (snd (inherit_fields 0 0 empty_uri_state)) 1) ''/api'' ''me''
     = ''/api/me'' \<and>
   uri (dicts empty_uri_collected 1) = Some ''/api/me''"
proof -
  have a: "api_doc_attr (funcs empty_uri_state 0) = Some 0"
    and u: "uri (dicts empty_uri_state 0) = Some []"
    by (simp_all add: empty_uri_state_fields empty_dict_def)
  have p: "partition_str ''GET_me'' CHR ''_'' = (''GET'', ''_'', ''me'')"
    by (simp add: partition_str_def)
  from empty_uri_treated_as_absent
         [OF empty_uri_fields(1) a p empty_uri_fields(2) empty_uri_fields(4) empty_uri_fields(3)]
       a u p empty_uri_fields(1,3,4,5)
  show ?thesis by simp
qed

end
